theory Spec2Isabelle
  imports Complex_Main
begin

section \<open>Data model (frontend/src/types/index.ts)\<close>

text \<open>
  The TypeScript interfaces become records. Several interfaces share the field names
  \<open>id\<close> and \<open>projectId\<close>, so every field carries a prefix naming its interface:
  \<open>p_\<close> for Project, \<open>d_\<close> for Document, \<open>m_\<close> for ChatMessage, \<open>src_\<close> for Source.
  The running code reads and writes the project field \<open>file_count\<close> (App.tsx, ProjectPanel.tsx),
  not the \<open>fileCount\<close> of the interface, and the model follows the code.
  A \<open>Document['status']\<close> is one of three string literals and becomes a datatype; the
  \<open>fileType\<close> is an unchecked cast of a computed string and stays a string.
\<close>

record project =
  p_id :: string
  p_name :: string
  p_description :: "string option"
  p_createdAt :: string
  p_updatedAt :: string
  p_file_count :: int

datatype doc_status = Processing | Ready | Failed

record document =
  d_id :: string
  d_projectId :: string
  d_filename :: string
  d_fileType :: string
  d_uploadedAt :: string
  d_size :: nat
  d_status :: doc_status

record source =
  src_documentId :: string
  src_documentName :: string
  src_chunk :: string
  src_pageNumber :: "int option"
  src_relevanceScore :: "real option"

datatype role = User | Assistant

record chat_message =
  m_id :: string
  m_projectId :: string
  m_content :: string
  m_role :: role
  m_timestamp :: string
  m_sources :: "source list option"

text \<open>A browser \<open>File\<close>, as far as the code reads it: its name and its size.\<close>

record file_obj =
  f_name :: string
  f_size :: nat

text \<open>One element of the chat-history response: a conversation with its messages array.\<close>

record conversation =
  c_messages :: "chat_message list"

text \<open>The body of a successful \<open>POST /api/chat/query\<close>, as handleSend reads it.\<close>

record chat_response =
  r_success :: bool
  r_conversation_id :: string
  r_response :: string
  r_metadata_project_id :: string
  r_metadata_timestamp :: string
  r_sources :: "source list option"

section \<open>Requests, errors and the console\<close>

datatype error = RequestFailed string | TypeError string

text \<open>
  The console holds the \<open>console.error\<close> calls: the message and, where one is passed, the
  error object. The \<open>console.log\<close> traces of the code change no state and are left out.
\<close>

datatype log_entry = ConsoleError string "error option"

text \<open>The payload object built by handleSend.\<close>

record payload =
  q_include_sources :: bool
  q_max_chunks :: int
  q_project_id :: string
  q_query :: string

text \<open>The fields appended to the FormData of an upload, in the order of the appends.\<close>

record form_data =
  fd_file :: file_obj
  fd_projectId :: string
  fd_filename :: string
  fd_fileType :: string
  fd_size :: string
  fd_uploadedAt :: string
  fd_status :: string

datatype body = NoBody | ProjectBody string string | FormBody form_data | QueryBody payload

datatype verb = GET | POST | DELETE

record request =
  rq_verb :: verb
  rq_url :: string
  rq_body :: body

section \<open>HTTP access functions (services/useProjects.js, useProjectDocuments.js, useChat.js)\<close>

text \<open>
  Every access function performs one axios call inside \<open>try\<close> and, in \<open>catch\<close>, logs the
  error with \<open>console.error\<close> and throws it again. The network is the parameter \<open>axios\<close>:
  it answers a request with \<open>Inl e\<close> (the call rejected with \<open>e\<close>) or \<open>Inr d\<close>
  (\<open>response.data\<close> is \<open>d\<close>). \<open>api\<close> is \<open>process.env.REACT_APP_API_URL\<close>.
  The result is the list of console entries written and either the thrown error or the
  returned data.
\<close>

definition getProjectsQuery ::
  "string \<Rightarrow> (request \<Rightarrow> error + 'd) \<Rightarrow> log_entry list \<times> (error + 'd)" where
  "getProjectsQuery api axios =
     (case axios \<lparr>rq_verb = GET, rq_url = api @ ''/api/projects'', rq_body = NoBody\<rparr> of
        Inr d \<Rightarrow> ([], Inr d)
      | Inl e \<Rightarrow> ([ConsoleError ''Error posting chat query:'' (Some e)], Inl e))"

definition AddProjects ::
  "string \<Rightarrow> string \<times> string \<Rightarrow> (request \<Rightarrow> error + 'd) \<Rightarrow> log_entry list \<times> (error + 'd)" where
  "AddProjects api newProject axios =
     (case axios \<lparr>rq_verb = POST, rq_url = api @ ''/api/projects'',
                  rq_body = ProjectBody (fst newProject) (snd newProject)\<rparr> of
        Inr d \<Rightarrow> ([], Inr d)
      | Inl e \<Rightarrow> ([ConsoleError ''Error posting chat query:'' (Some e)], Inl e))"

definition DeleteProjects ::
  "string \<Rightarrow> string \<Rightarrow> (request \<Rightarrow> error + 'd) \<Rightarrow> log_entry list \<times> (error + 'd)" where
  "DeleteProjects api project_id axios =
     (case axios \<lparr>rq_verb = DELETE, rq_url = api @ ''/api/projects/'' @ project_id,
                  rq_body = NoBody\<rparr> of
        Inr d \<Rightarrow> ([], Inr d)
      | Inl e \<Rightarrow> ([ConsoleError ''Error posting chat query:'' (Some e)], Inl e))"

definition postChatQuery ::
  "string \<Rightarrow> payload \<Rightarrow> (request \<Rightarrow> error + 'd) \<Rightarrow> log_entry list \<times> (error + 'd)" where
  "postChatQuery api query axios =
     (case axios \<lparr>rq_verb = POST, rq_url = api @ ''/api/chat/query'',
                  rq_body = QueryBody query\<rparr> of
        Inr d \<Rightarrow> ([], Inr d)
      | Inl e \<Rightarrow> ([ConsoleError ''Error posting chat query:'' (Some e)], Inl e))"

definition getChatHistory ::
  "string \<Rightarrow> string \<Rightarrow> (request \<Rightarrow> error + 'd) \<Rightarrow> log_entry list \<times> (error + 'd)" where
  "getChatHistory api project_id axios =
     (case axios \<lparr>rq_verb = GET, rq_url = api @ ''/api/chat/history/'' @ project_id,
                  rq_body = NoBody\<rparr> of
        Inr d \<Rightarrow> ([], Inr d)
      | Inl e \<Rightarrow> ([ConsoleError ''Error posting chat feedback:'' (Some e)], Inl e))"

definition getProjectDocumentsQuery ::
  "string \<Rightarrow> string \<Rightarrow> (request \<Rightarrow> error + 'd) \<Rightarrow> log_entry list \<times> (error + 'd)" where
  "getProjectDocumentsQuery api project_id axios =
     (case axios \<lparr>rq_verb = GET, rq_url = api @ ''/api/documents/project/'' @ project_id,
                  rq_body = NoBody\<rparr> of
        Inr d \<Rightarrow> ([], Inr d)
      | Inl e \<Rightarrow> ([ConsoleError ''Error posting chat query:'' (Some e)], Inl e))"

definition uploadDocumentQuery ::
  "string \<Rightarrow> string \<Rightarrow> form_data \<Rightarrow> (request \<Rightarrow> error + 'd) \<Rightarrow> log_entry list \<times> (error + 'd)" where
  "uploadDocumentQuery api projectId formData axios =
     (case axios \<lparr>rq_verb = POST,
                  rq_url = api @ ''/api/documents/upload?project_id='' @ projectId,
                  rq_body = FormBody formData\<rparr> of
        Inr d \<Rightarrow> ([], Inr d)
      | Inl e \<Rightarrow> ([ConsoleError ''Error uploading document:'' (Some e)], Inl e))"

definition deleteDocument ::
  "string \<Rightarrow> string \<Rightarrow> (request \<Rightarrow> error + 'd) \<Rightarrow> log_entry list \<times> (error + 'd)" where
  "deleteDocument api documentId axios =
     (case axios \<lparr>rq_verb = DELETE, rq_url = api @ ''/api/documents/'' @ documentId,
                  rq_body = NoBody\<rparr> of
        Inr d \<Rightarrow> ([], Inr d)
      | Inl e \<Rightarrow> ([ConsoleError ''Error deleting document:'' (Some e)], Inl e))"

text \<open>
  What a caller of an access function can observe of a failure: the error came back as the
  thrown value, and it was written to the console exactly once.
\<close>

definition rethrown :: "string \<Rightarrow> error \<Rightarrow> log_entry list \<times> (error + 'd) \<Rightarrow> bool" where
  "rethrown msg e res \<longleftrightarrow> fst res = [ConsoleError msg (Some e)] \<and> snd res = Inl e"


section \<open>JavaScript values and strings, as far as the handlers use them\<close>

text \<open>
  The handlers test values with \<open>if (response)\<close>. A value is an object (an array, a record
  or a Promise), which is truthy whatever it holds, or \<open>undefined\<close> or \<open>null\<close>, or one of the
  other falsy values (the empty string, \<open>0\<close>, \<open>false\<close>, \<open>NaN\<close>), which \<open>Falsy\<close> stands for:
  reading a property of \<open>undefined\<close> or \<open>null\<close> throws a TypeError, reading one of a
  \<open>Falsy\<close> value gives \<open>undefined\<close>.
\<close>

datatype 'a js = Undefined | Null | Falsy | Obj 'a

fun truthy :: "'a js \<Rightarrow> bool" where
  "truthy Undefined = False"
| "truthy Null = False"
| "truthy Falsy = False"
| "truthy (Obj _) = True"

text \<open>\<open>Array.prototype.flatMap\<close> with a callback that returns an array.\<close>

fun flatMap :: "('a \<Rightarrow> 'b list) \<Rightarrow> 'a list \<Rightarrow> 'b list" where
  "flatMap f [] = []"
| "flatMap f (x # xs) = f x @ flatMap f xs"

text \<open>\<open>Array.prototype.find\<close>: the first element that satisfies the predicate, or \<open>undefined\<close>.\<close>

fun find_js :: "('a \<Rightarrow> bool) \<Rightarrow> 'a list \<Rightarrow> 'a js" where
  "find_js P [] = Undefined"
| "find_js P (x # xs) = (if P x then Obj x else find_js P xs)"

text \<open>
  \<open>String.prototype.trim\<close>, \<open>split('.')\<close>, \<open>pop()\<close> and \<open>toLowerCase()\<close>. A \<open>char\<close> is a
  code unit below 256 (U+0000 to U+00FF). In that range the white space that \<open>trim\<close> strips
  is tab, line feed, vertical tab, form feed, carriage return, space and the no-break space
  U+00A0, and the letters with a lower case are \<open>A\<close> to \<open>Z\<close> and U+00C0 to U+00DE without the
  multiplication sign U+00D7, each 32 below its lower case. Strings with code units from
  U+0100 on are not covered.
\<close>

definition is_space :: "char \<Rightarrow> bool" where
  "is_space c \<longleftrightarrow>
     c \<in> set [CHR '' '', CHR 0x09, CHR 0x0A, CHR 0x0B, CHR 0x0C, CHR 0x0D, CHR 0xA0]"

definition trim :: "string \<Rightarrow> string" where
  "trim s = rev (dropWhile is_space (rev (dropWhile is_space s)))"

fun split_dot :: "string \<Rightarrow> string list" where
  "split_dot [] = [[]]"
| "split_dot (c # cs) =
     (if c = CHR ''.'' then [] # split_dot cs
      else (case split_dot cs of [] \<Rightarrow> [[c]] | w # ws \<Rightarrow> (c # w) # ws))"

definition pop :: "'a list \<Rightarrow> 'a js" where
  "pop xs = (case xs of [] \<Rightarrow> Undefined | _ \<Rightarrow> Obj (last xs))"

definition toLowerCase_char :: "char \<Rightarrow> char" where
  "toLowerCase_char c =
     (let n = (of_char c :: nat)
      in if (65 \<le> n \<and> n \<le> 90) \<or> (192 \<le> n \<and> n \<le> 222 \<and> n \<noteq> 215)
         then char_of (n + 32) else c)"

definition toLowerCase :: "string \<Rightarrow> string" where
  "toLowerCase s = map toLowerCase_char s"

text \<open>
  \<open>name.split('.').pop()?.toLowerCase()\<close>: the lower-cased text after the last dot, or the
  whole lower-cased name when it has no dot. \<open>split\<close> never returns an empty array, so
  \<open>pop()\<close> is never \<open>undefined\<close> here; the model keeps the branch of \<open>?.\<close> all the same.
\<close>

definition extension :: "string \<Rightarrow> string js" where
  "extension name = (case pop (split_dot name) of Obj e \<Rightarrow> Obj (toLowerCase e) | _ \<Rightarrow> Undefined)"

text \<open>\<open>Number.prototype.toString\<close> on a file size, a non-negative integer.\<close>

fun toString :: "nat \<Rightarrow> string" where
  "toString n =
     (if n < 10 then [char_of (48 + n)] else toString (n div 10) @ [char_of (48 + n mod 10)])"

section \<open>The state of the root container (App.tsx) and of the chat panel\<close>

text \<open>
  A call of an access function that has not settled yet, with the code that waits for it.
  \<open>DeleteProjects\<close> and \<open>uploadDocumentQuery\<close> are called without \<open>await\<close> and without
  \<open>then\<close>: nothing waits for them.
\<close>

datatype pending =
    Await_fetchProjects
  | Await_fetchProjectDocuments string
  | Await_fetchChatHistory string
  | Await_handleSend payload
  | Await_handleCreateProject "string \<times> string"
  | Unawaited_DeleteProjects string
  | Unawaited_uploadDocumentQuery string form_data

text \<open>
  The \<open>useState\<close> cells of \<open>App\<close>, the \<open>inputMessage\<close> cell of \<open>ChatPanel\<close>, and the
  surroundings the handlers act on: the calls in flight, the \<open>setTimeout\<close> callbacks not yet
  run (each closes over its \<open>newDocuments\<close>), the console, and the errors that left a
  handler uncaught.
\<close>

record state =
  projects :: "project list"
  selectedProject :: "project option"
  documents :: "document list"
  messages :: "chat_message list"
  currentSources :: "source list"
  isSourcePanelOpen :: bool
  isLoading :: bool
  darkMode :: bool
  inputMessage :: string
  inflight :: "pending list"
  timers :: "document list list"
  console :: "log_entry list"
  uncaught :: "error list"

text \<open>
  The values a handler reads from outside: the k-th \<open>Date.now()\<close>, \<open>Math.random()\<close> and
  \<open>new Date().toISOString()\<close> of one run of the handler, each already a string.
\<close>

record readings =
  date_now :: "nat \<Rightarrow> string"
  math_random :: "nat \<Rightarrow> string"
  iso_now :: "nat \<Rightarrow> string"

text \<open>\<open>process.env\<close>: the base URL and the parsed \<open>REACT_APP_NUM_CHUNKS\<close>, when it is set.\<close>

record config =
  REACT_APP_API_URL :: string
  REACT_APP_NUM_CHUNKS :: "int option"

section \<open>Handlers of App.tsx\<close>

definition handleProjectCreate :: "readings \<Rightarrow> string \<Rightarrow> string option \<Rightarrow> state \<Rightarrow> state" where
  "handleProjectCreate orc name description s =
     (let newProject = \<lparr>p_id = ''project-'' @ date_now orc 0, p_name = name,
                         p_description = description, p_createdAt = iso_now orc 0,
                         p_updatedAt = iso_now orc 1, p_file_count = 0\<rparr>
      in s\<lparr>projects := projects s @ [newProject]\<rparr>)"

definition handleProjectSelect :: "project \<Rightarrow> state \<Rightarrow> state" where
  "handleProjectSelect project s =
     s\<lparr>selectedProject := Some project,
       messages := filter (\<lambda>m. m_projectId m = p_id project) (messages s)\<rparr>"

text \<open>
  The effect on \<open>[selectedProject]\<close>: with a project selected, \<open>fetchProjectDocuments\<close> and
  \<open>fetchChatHistory\<close> start, each up to its \<open>await\<close>.
\<close>

definition selectedProject_effect :: "state \<Rightarrow> state" where
  "selectedProject_effect s =
     (case selectedProject s of
        None \<Rightarrow> s
      | Some p \<Rightarrow> s\<lparr>inflight := inflight s @
                        [Await_fetchProjectDocuments (p_id p), Await_fetchChatHistory (p_id p)]\<rparr>)"

text \<open>
  \<open>handleProjectDelete\<close>: three filters, the call of \<open>DeleteProjects\<close> (its promise is bound to
  \<open>response\<close> and never read), and the reset of the selection.
\<close>

definition handleProjectDelete :: "string \<Rightarrow> state \<Rightarrow> state" where
  "handleProjectDelete projectId s =
     s\<lparr>projects := filter (\<lambda>p. p_id p \<noteq> projectId) (projects s),
       documents := filter (\<lambda>d. d_projectId d \<noteq> projectId) (documents s),
       messages := filter (\<lambda>m. m_projectId m \<noteq> projectId) (messages s),
       inflight := inflight s @ [Unawaited_DeleteProjects projectId],
       selectedProject :=
         (if map_option p_id (selectedProject s) = Some projectId then None
          else selectedProject s)\<rparr>"

text \<open>
  \<open>handleFileUpload\<close>. Each file is mapped to a document with status \<open>'processing'\<close>; the
  form data is built from \<open>files[0]\<close> alone, and reading \<open>files[0].name\<close> of an empty drop
  throws a TypeError before anything else happens. \<open>uploadDocumentQuery\<close> is an async
  function called without \<open>await\<close>: \<open>response\<close> is the Promise it returns. File \<open>i\<close> of
  the drop takes the readings number \<open>i\<close>, the form data the next time stamp, and the
  updater of the projects the one after (one instant for all the projects it rewrites).
\<close>

definition newDocument :: "readings \<Rightarrow> string \<Rightarrow> nat \<times> file_obj \<Rightarrow> document" where
  "newDocument orc projectId = (\<lambda>(i, file).
     \<lparr>d_id = ''doc-'' @ date_now orc i @ ''-'' @ math_random orc i,
      d_projectId = projectId,
      d_filename = f_name file,
      d_fileType = (case extension (f_name file) of Obj e \<Rightarrow> e | _ \<Rightarrow> ''undefined''),
      d_uploadedAt = iso_now orc i,
      d_size = f_size file,
      d_status = Processing\<rparr>)"

definition firstFileForm :: "readings \<Rightarrow> string \<Rightarrow> nat \<Rightarrow> file_obj \<Rightarrow> form_data" where
  "firstFileForm orc projectId n file0 =
     \<lparr>fd_file = file0,
      fd_projectId = projectId,
      fd_filename = f_name file0,
      fd_fileType = (case extension (f_name file0) of
                       Obj e \<Rightarrow> (if e = [] then ''unknown'' else e) | _ \<Rightarrow> ''unknown''),
      fd_size = toString (f_size file0),
      fd_uploadedAt = iso_now orc n,
      fd_status = ''processing''\<rparr>"

definition bumpFileCount :: "readings \<Rightarrow> string \<Rightarrow> nat \<Rightarrow> project \<Rightarrow> project" where
  "bumpFileCount orc projectId n p =
     (if p_id p = projectId
      then p\<lparr>p_file_count := p_file_count p + int n, p_updatedAt := iso_now orc (Suc n)\<rparr>
      else p)"

definition handleFileUpload ::
  "readings \<Rightarrow> file_obj list \<Rightarrow> string \<Rightarrow> state \<Rightarrow> error option \<times> state" where
  "handleFileUpload orc files projectId s =
     (let newDocuments = map (newDocument orc projectId) (enumerate 0 files) in
      case files of
        [] \<Rightarrow> (Some (TypeError ''files[0] is undefined''), s)
      | file0 # _ \<Rightarrow>
          let formData = firstFileForm orc projectId (length files) file0;
              call = Unawaited_uploadDocumentQuery projectId formData;
              response = Obj call;
              s1 = s\<lparr>inflight := inflight s @ [call]\<rparr>
          in if \<not> truthy response
             then (None, s1\<lparr>console := console s1 @
                               [ConsoleError ''Failed to upload documents'' None]\<rparr>)
             else (None, s1\<lparr>documents := documents s1 @ newDocuments,
                            projects := map (bumpFileCount orc projectId (length files))
                                            (projects s1),
                            timers := timers s1 @ [newDocuments]\<rparr>))"

text \<open>The callback given to \<open>setTimeout\<close> by \<open>handleFileUpload\<close>, run 2000 ms later.\<close>

definition markReady :: "document list \<Rightarrow> document \<Rightarrow> document" where
  "markReady newDocuments doc =
     (if truthy (find_js (\<lambda>d. d_id d = d_id doc) newDocuments)
      then doc\<lparr>d_status := Ready\<rparr> else doc)"

definition uploadTimeout :: "document list \<Rightarrow> state \<Rightarrow> state" where
  "uploadTimeout newDocuments s = s\<lparr>documents := map (markReady newDocuments) (documents s)\<rparr>"

text \<open>\<open>handleSendMessage\<close>: an async function without \<open>await\<close>, so it runs to its end at once.\<close>

definition handleSendMessage :: "readings \<Rightarrow> string \<Rightarrow> state \<Rightarrow> state" where
  "handleSendMessage orc content s =
     (case selectedProject s of
        None \<Rightarrow> s
      | Some p \<Rightarrow>
          let userMessage = \<lparr>m_id = ''msg-'' @ date_now orc 0, m_projectId = p_id p,
                             m_content = content, m_role = User,
                             m_timestamp = iso_now orc 0, m_sources = None\<rparr>
          in s\<lparr>isLoading := True, messages := messages s @ [userMessage]\<rparr>)"

definition handleSourceClick :: "source list \<Rightarrow> state \<Rightarrow> state" where
  "handleSourceClick sources s = s\<lparr>currentSources := sources, isSourcePanelOpen := True\<rparr>"

definition handleToggleDarkMode :: "state \<Rightarrow> state" where
  "handleToggleDarkMode s = s\<lparr>darkMode := \<not> darkMode s\<rparr>"

section \<open>Sending a chat query (ChatPanel.tsx, handleSend)\<close>

text \<open>
  \<open>handleSend\<close> up to its \<open>await\<close>: under the guard it calls \<open>onSendMessage\<close> (that is
  \<open>handleSendMessage\<close>), builds the payload from the props of the current render, clears the
  input and calls \<open>postChatQuery\<close>. The prop \<open>selectedProjectId\<close> is
  \<open>selectedProject?.id || ''\<close>.
\<close>

definition selectedProjectId :: "state \<Rightarrow> string" where
  "selectedProjectId s = (case selectedProject s of None \<Rightarrow> [] | Some p \<Rightarrow> p_id p)"

definition chatPayload :: "config \<Rightarrow> state \<Rightarrow> payload" where
  "chatPayload cfg s =
     \<lparr>q_include_sources = True,
      q_max_chunks = (case REACT_APP_NUM_CHUNKS cfg of Some n \<Rightarrow> n | None \<Rightarrow> 5),
      q_project_id = selectedProjectId s,
      q_query = inputMessage s\<rparr>"

definition handleSend :: "config \<Rightarrow> readings \<Rightarrow> state \<Rightarrow> state" where
  "handleSend cfg orc s =
     (if trim (inputMessage s) \<noteq> [] \<and> \<not> isLoading s
      then let s1 = handleSendMessage orc (inputMessage s) s
           in s1\<lparr>inputMessage := [], inflight := inflight s1 @ [Await_handleSend (chatPayload cfg s)]\<rparr>
      else s)"

text \<open>
  \<open>handleSend\<close> from its \<open>await\<close> on, when the axios call of \<open>postChatQuery\<close> has settled with
  \<open>outcome\<close>. There is no \<open>try\<close> in \<open>handleSend\<close>: what \<open>postChatQuery\<close> throws leaves
  \<open>handleSend\<close>, and so does the TypeError of reading \<open>success\<close> from a body that is
  \<open>undefined\<close> or \<open>null\<close>; any other falsy body has no \<open>success\<close> and takes the \<open>else\<close>
  branch. The first component of the result is the error that left the handler, if any.
\<close>

definition assistantMessage :: "chat_response \<Rightarrow> chat_message" where
  "assistantMessage response =
     \<lparr>m_id = r_conversation_id response,
      m_projectId = r_metadata_project_id response,
      m_content = r_response response,
      m_role = Assistant,
      m_timestamp = r_metadata_timestamp response,
      m_sources = r_sources response\<rparr>"

definition handleSend_resume ::
  "config \<Rightarrow> payload \<Rightarrow> error + chat_response js \<Rightarrow> state \<Rightarrow> error option \<times> state" where
  "handleSend_resume cfg query outcome s =
     (let (logged, result) = postChatQuery (REACT_APP_API_URL cfg) query (\<lambda>_. outcome);
          s1 = s\<lparr>console := console s @ logged\<rparr>
      in case result of
           Inl e \<Rightarrow> (Some e, s1)
         | Inr (Obj response) \<Rightarrow>
             if r_success response
             then (None, s1\<lparr>messages := messages s1 @ [assistantMessage response],
                            inputMessage := [], isLoading := False\<rparr>)
             else (None, s1\<lparr>console := console s1 @ [ConsoleError ''Failed to send message'' None],
                            isLoading := False\<rparr>)
         | Inr Falsy \<Rightarrow>
             (None, s1\<lparr>console := console s1 @ [ConsoleError ''Failed to send message'' None],
                      isLoading := False\<rparr>)
         | Inr _ \<Rightarrow> (Some (TypeError ''response is undefined or null''), s1))"

section \<open>Fetches of App.tsx, from their await on\<close>

definition fetchProjects_resume ::
  "config \<Rightarrow> error + project list js \<Rightarrow> state \<Rightarrow> error option \<times> state" where
  "fetchProjects_resume cfg outcome s =
     (let (logged, result) = getProjectsQuery (REACT_APP_API_URL cfg) (\<lambda>_. outcome);
          s1 = s\<lparr>console := console s @ logged\<rparr>
      in case result of
           Inl e \<Rightarrow> (Some e, s1)
         | Inr (Obj response) \<Rightarrow> (None, s1\<lparr>projects := response\<rparr>)
         | Inr _ \<Rightarrow> (None, s1\<lparr>console := console s1 @
                                   [ConsoleError ''Failed to fetch projects'' None]\<rparr>))"

definition fetchProjectDocuments_resume ::
  "config \<Rightarrow> string \<Rightarrow> error + document list js \<Rightarrow> state \<Rightarrow> error option \<times> state" where
  "fetchProjectDocuments_resume cfg projectId outcome s =
     (let (logged, result) =
            getProjectDocumentsQuery (REACT_APP_API_URL cfg) projectId (\<lambda>_. outcome);
          s1 = s\<lparr>console := console s @ logged\<rparr>
      in case result of
           Inl e \<Rightarrow> (None, s1\<lparr>console := console s1 @
                                   [ConsoleError ''Error fetching project documents:'' (Some e)]\<rparr>)
         | Inr (Obj response) \<Rightarrow> (None, s1\<lparr>documents := response\<rparr>)
         | Inr _ \<Rightarrow> (None, s1\<lparr>console := console s1 @
                                   [ConsoleError ''Failed to fetch project documents'' None]\<rparr>))"

definition fetchChatHistory_resume ::
  "config \<Rightarrow> string \<Rightarrow> error + conversation list js \<Rightarrow> state \<Rightarrow> error option \<times> state" where
  "fetchChatHistory_resume cfg projectId outcome s =
     (let (logged, result) = getChatHistory (REACT_APP_API_URL cfg) projectId (\<lambda>_. outcome);
          s1 = s\<lparr>console := console s @ logged\<rparr>
      in case result of
           Inl e \<Rightarrow> (None, s1\<lparr>console := console s1 @
                                   [ConsoleError ''Error fetching chat history:'' (Some e)]\<rparr>)
         | Inr (Obj response) \<Rightarrow>
             (let allMessages = flatMap c_messages response
              in (None, s1\<lparr>messages := allMessages\<rparr>))
         | Inr _ \<Rightarrow> (None, s1\<lparr>console := console s1 @
                                   [ConsoleError ''Failed to fetch chat history'' None]\<rparr>))"

text \<open>
  \<open>handleCreateProject\<close> of ProjectPanel.tsx: under the guard on the trimmed name it awaits
  \<open>AddProjects\<close>; a truthy answer starts \<open>fetchProjects\<close>. The form cells it resets afterwards
  are local to the panel and not part of this state.
\<close>

definition handleCreateProject :: "string \<times> string \<Rightarrow> state \<Rightarrow> state" where
  "handleCreateProject newProject s =
     (if trim (fst newProject) \<noteq> []
      then s\<lparr>inflight := inflight s @ [Await_handleCreateProject newProject]\<rparr> else s)"

definition handleCreateProject_resume ::
  "config \<Rightarrow> string \<times> string \<Rightarrow> error + project js \<Rightarrow> state \<Rightarrow> error option \<times> state" where
  "handleCreateProject_resume cfg newProject outcome s =
     (let (logged, result) = AddProjects (REACT_APP_API_URL cfg) newProject (\<lambda>_. outcome);
          s1 = s\<lparr>console := console s @ logged\<rparr>
      in case result of
           Inl e \<Rightarrow> (Some e, s1)
         | Inr response \<Rightarrow>
             (None, if truthy response then s1\<lparr>inflight := inflight s1 @ [Await_fetchProjects]\<rparr>
                    else s1))"

text \<open>
  The two calls nobody awaits. When one settles, the access function alone runs to its end;
  on failure its re-thrown error is an unhandled rejection.
\<close>

definition DeleteProjects_settled ::
  "config \<Rightarrow> string \<Rightarrow> error + string js \<Rightarrow> state \<Rightarrow> error option \<times> state" where
  "DeleteProjects_settled cfg projectId outcome s =
     (let (logged, result) = DeleteProjects (REACT_APP_API_URL cfg) projectId (\<lambda>_. outcome);
          s1 = s\<lparr>console := console s @ logged\<rparr>
      in case result of Inl e \<Rightarrow> (Some e, s1) | Inr _ \<Rightarrow> (None, s1))"

definition uploadDocumentQuery_settled ::
  "config \<Rightarrow> string \<Rightarrow> form_data \<Rightarrow> error + string js \<Rightarrow> state \<Rightarrow> error option \<times> state" where
  "uploadDocumentQuery_settled cfg projectId formData outcome s =
     (let (logged, result) =
            uploadDocumentQuery (REACT_APP_API_URL cfg) projectId formData (\<lambda>_. outcome);
          s1 = s\<lparr>console := console s @ logged\<rparr>
      in case result of Inl e \<Rightarrow> (Some e, s1) | Inr _ \<Rightarrow> (None, s1))"

section \<open>The event loop\<close>

text \<open>
  The application is single-threaded: between two events nothing changes. An event is a
  user action that runs a handler, the settling of a call in flight (addressed by its
  position among the calls in flight) or the firing of a timer. The data of a settled call
  has the shape the backend interface gives to its endpoint.
\<close>

datatype response =
    ProjectsData "project list js"
  | DocumentsData "document list js"
  | HistoryData "conversation list js"
  | ChatData "chat_response js"
  | CreatedData "project js"
  | StatusData "string js"

datatype event =
    ProjectCreate readings string "string option"
  | ProjectSelect project
  | ProjectDelete string
  | FileUpload readings "file_obj list" string
  | InputChange string
  | Send readings
  | CreateProject "string \<times> string"
  | SourceClick "source list"
  | SourcePanelClose
  | ToggleDarkMode
  | Settled nat "error + response"
  | Timeout nat

text \<open>
  The code that waits for a call continues with the outcome; \<open>None\<close> when the data is not
  of the shape of the call's endpoint.
\<close>

definition settle ::
  "config \<Rightarrow> pending \<Rightarrow> error + response \<Rightarrow> state \<Rightarrow> (error option \<times> state) option" where
  "settle cfg call outcome s =
     (case call of
        Await_fetchProjects \<Rightarrow>
          (case outcome of
             Inl e \<Rightarrow> Some (fetchProjects_resume cfg (Inl e) s)
           | Inr (ProjectsData d) \<Rightarrow> Some (fetchProjects_resume cfg (Inr d) s)
           | _ \<Rightarrow> None)
      | Await_fetchProjectDocuments projectId \<Rightarrow>
          (case outcome of
             Inl e \<Rightarrow> Some (fetchProjectDocuments_resume cfg projectId (Inl e) s)
           | Inr (DocumentsData d) \<Rightarrow> Some (fetchProjectDocuments_resume cfg projectId (Inr d) s)
           | _ \<Rightarrow> None)
      | Await_fetchChatHistory projectId \<Rightarrow>
          (case outcome of
             Inl e \<Rightarrow> Some (fetchChatHistory_resume cfg projectId (Inl e) s)
           | Inr (HistoryData d) \<Rightarrow> Some (fetchChatHistory_resume cfg projectId (Inr d) s)
           | _ \<Rightarrow> None)
      | Await_handleSend query \<Rightarrow>
          (case outcome of
             Inl e \<Rightarrow> Some (handleSend_resume cfg query (Inl e) s)
           | Inr (ChatData d) \<Rightarrow> Some (handleSend_resume cfg query (Inr d) s)
           | _ \<Rightarrow> None)
      | Await_handleCreateProject newProject \<Rightarrow>
          (case outcome of
             Inl e \<Rightarrow> Some (handleCreateProject_resume cfg newProject (Inl e) s)
           | Inr (CreatedData d) \<Rightarrow> Some (handleCreateProject_resume cfg newProject (Inr d) s)
           | _ \<Rightarrow> None)
      | Unawaited_DeleteProjects projectId \<Rightarrow>
          (case outcome of
             Inl e \<Rightarrow> Some (DeleteProjects_settled cfg projectId (Inl e) s)
           | Inr (StatusData d) \<Rightarrow> Some (DeleteProjects_settled cfg projectId (Inr d) s)
           | _ \<Rightarrow> None)
      | Unawaited_uploadDocumentQuery projectId formData \<Rightarrow>
          (case outcome of
             Inl e \<Rightarrow> Some (uploadDocumentQuery_settled cfg projectId formData (Inl e) s)
           | Inr (StatusData d) \<Rightarrow>
               Some (uploadDocumentQuery_settled cfg projectId formData (Inr d) s)
           | _ \<Rightarrow> None))"

text \<open>An error that leaves a handler is recorded; the state the handler reached stays.\<close>

definition escaped :: "error option \<times> state \<Rightarrow> state" where
  "escaped r = (case fst r of
                  None \<Rightarrow> snd r
                | Some e \<Rightarrow> (snd r)\<lparr>uncaught := uncaught (snd r) @ [e]\<rparr>)"

text \<open>
  The drop zone calls the upload handler inside its own promise chain, whose \<open>catch\<close> writes
  the error with \<open>console.error\<close>: an error thrown by \<open>handleFileUpload\<close> ends there.
\<close>

definition dropped :: "error option \<times> state \<Rightarrow> state" where
  "dropped r = (case fst r of
                  None \<Rightarrow> snd r
                | Some e \<Rightarrow> (snd r)\<lparr>console := console (snd r) @ [ConsoleError [] (Some e)]\<rparr>)"

definition remove_nth :: "nat \<Rightarrow> 'a list \<Rightarrow> 'a list" where
  "remove_nth i xs = take i xs @ drop (Suc i) xs"

text \<open>
  After a handler has changed \<open>selectedProject\<close>, the next render runs the effect that
  depends on it. React compares the dependency by reference and the model compares the
  records: selecting a project object that is new but equal, field by field, to the selected
  one starts the two fetches in the page and none here. The properties below that speak of
  calls in flight hold for every list of calls in flight.
\<close>

definition rendered :: "state \<Rightarrow> state \<Rightarrow> state" where
  "rendered s s1 = (if selectedProject s1 \<noteq> selectedProject s then selectedProject_effect s1 else s1)"

fun step :: "config \<Rightarrow> event \<Rightarrow> state \<Rightarrow> state" where
  "step cfg (ProjectCreate orc name description) s = handleProjectCreate orc name description s"
| "step cfg (ProjectSelect project) s = rendered s (handleProjectSelect project s)"
| "step cfg (ProjectDelete projectId) s = rendered s (handleProjectDelete projectId s)"
| "step cfg (FileUpload orc files projectId) s = dropped (handleFileUpload orc files projectId s)"
| "step cfg (InputChange v) s = s\<lparr>inputMessage := v\<rparr>"
| "step cfg (Send orc) s = handleSend cfg orc s"
| "step cfg (CreateProject newProject) s = handleCreateProject newProject s"
| "step cfg (SourceClick sources) s = handleSourceClick sources s"
| "step cfg SourcePanelClose s = s\<lparr>isSourcePanelOpen := False\<rparr>"
| "step cfg ToggleDarkMode s = handleToggleDarkMode s"
| "step cfg (Settled i outcome) s =
     (if i < length (inflight s)
      then (case settle cfg (inflight s ! i) outcome (s\<lparr>inflight := remove_nth i (inflight s)\<rparr>) of
              None \<Rightarrow> s
            | Some r \<Rightarrow> escaped r)
      else s)"
| "step cfg (Timeout i) s =
     (if i < length (timers s)
      then uploadTimeout (timers s ! i) (s\<lparr>timers := remove_nth i (timers s)\<rparr>)
      else s)"

fun run :: "config \<Rightarrow> event list \<Rightarrow> state \<Rightarrow> state" where
  "run cfg [] s = s"
| "run cfg (e # es) s = run cfg es (step cfg e s)"

text \<open>The state after the first render: the mount effect has called \<open>fetchProjects\<close>.\<close>

definition initial :: state where
  "initial = \<lparr>projects = [], selectedProject = None, documents = [], messages = [],
               currentSources = [], isSourcePanelOpen = False, isLoading = False,
               darkMode = True, inputMessage = [], inflight = [Await_fetchProjects],
               timers = [], console = [], uncaught = []\<rparr>"

text \<open>
  What the rendered page lets the user do. The chat input and the send button are disabled
  while \<open>isLoading || !selectedProjectName\<close>; the upload control exists only for the
  selected project; a project can be selected or deleted from its row in the list. A call
  settles only while it is in flight, with data of its endpoint's shape, and a timer runs
  only while it is registered. \<open>handleProjectCreate\<close> is handed to the project panel, which
  calls \<open>AddProjects\<close> instead; the model offers both.
\<close>

definition chatDisabled :: "state \<Rightarrow> bool" where
  "chatDisabled s \<longleftrightarrow>
     isLoading s \<or> (case selectedProject s of None \<Rightarrow> True | Some p \<Rightarrow> p_name p = [])"

fun offered :: "config \<Rightarrow> event \<Rightarrow> state \<Rightarrow> bool" where
  "offered cfg (Send orc) s = (\<not> chatDisabled s)"
| "offered cfg (FileUpload orc files projectId) s =
     (case selectedProject s of None \<Rightarrow> False | Some p \<Rightarrow> projectId = p_id p)"
| "offered cfg (ProjectSelect project) s = (project \<in> set (projects s))"
| "offered cfg (ProjectDelete projectId) s = (projectId \<in> p_id ` set (projects s))"
| "offered cfg (Settled i outcome) s =
     (i < length (inflight s) \<and>
      settle cfg (inflight s ! i) outcome (s\<lparr>inflight := remove_nth i (inflight s)\<rparr>) \<noteq> None)"
| "offered cfg (Timeout i) s = (i < length (timers s))"
| "offered cfg _ s = True"

text \<open>A sequence of events, each offered by the page in the state it meets.\<close>

fun offered_all :: "config \<Rightarrow> event list \<Rightarrow> state \<Rightarrow> bool" where
  "offered_all cfg [] s = True"
| "offered_all cfg (e # es) s = (offered cfg e s \<and> offered_all cfg es (step cfg e s))"

text \<open>The chat queries in flight.\<close>

fun is_chat_query :: "pending \<Rightarrow> bool" where
  "is_chat_query (Await_handleSend _) = True"
| "is_chat_query _ = False"

definition chat_queries :: "state \<Rightarrow> pending list" where
  "chat_queries s = filter is_chat_query (inflight s)"

text \<open>The files of the upload calls in flight, in the order of the calls.\<close>

fun upload_file :: "pending \<Rightarrow> file_obj option" where
  "upload_file (Unawaited_uploadDocumentQuery _ formData) = Some (fd_file formData)"
| "upload_file _ = None"

definition files_in_transmission :: "state \<Rightarrow> file_obj list" where
  "files_in_transmission s = List.map_filter upload_file (inflight s)"

section \<open>Concrete data for the examples\<close>

definition demo_cfg :: config where
  "demo_cfg = \<lparr>REACT_APP_API_URL = ''http://localhost:8000'', REACT_APP_NUM_CHUNKS = None\<rparr>"

definition demo_clock :: readings where
  "demo_clock = \<lparr>date_now = (\<lambda>k. ''1700000000000''),
                  math_random = (\<lambda>k. ''0.'' @ toString (Suc k)),
                  iso_now = (\<lambda>k. ''2023-11-14T22:13:20.000Z'')\<rparr>"

definition alpha :: project where
  "alpha = \<lparr>p_id = ''p1'', p_name = ''Alpha'', p_description = None,
             p_createdAt = ''2023-11-01T00:00:00.000Z'',
             p_updatedAt = ''2023-11-01T00:00:00.000Z'', p_file_count = 1\<rparr>"

definition beta :: project where
  "beta = \<lparr>p_id = ''p2'', p_name = ''Beta'', p_description = Some ''second'',
            p_createdAt = ''2023-11-02T00:00:00.000Z'',
            p_updatedAt = ''2023-11-02T00:00:00.000Z'', p_file_count = 0\<rparr>"

definition alpha_doc :: document where
  "alpha_doc = \<lparr>d_id = ''d1'', d_projectId = ''p1'', d_filename = ''plan.pdf'',
                 d_fileType = ''pdf'', d_uploadedAt = ''2023-11-01T00:00:00.000Z'',
                 d_size = 1024, d_status = Ready\<rparr>"

definition alpha_question :: chat_message where
  "alpha_question = \<lparr>m_id = ''m1'', m_projectId = ''p1'', m_content = ''What is the plan?'',
                      m_role = User, m_timestamp = ''2023-11-01T00:01:00.000Z'',
                      m_sources = None\<rparr>"

definition alpha_answer :: chat_message where
  "alpha_answer = \<lparr>m_id = ''m2'', m_projectId = ''p1'', m_content = ''Ship it.'',
                    m_role = Assistant, m_timestamp = ''2023-11-01T00:01:05.000Z'',
                    m_sources = Some [\<lparr>src_documentId = ''d1'', src_documentName = ''plan.pdf'',
                                       src_chunk = ''ship'', src_pageNumber = Some 5,
                                       src_relevanceScore = None\<rparr>]\<rparr>"

definition beta_question :: chat_message where
  "beta_question = \<lparr>m_id = ''m3'', m_projectId = ''p2'', m_content = ''Anything?'',
                     m_role = User, m_timestamp = ''2023-11-02T00:01:00.000Z'',
                     m_sources = None\<rparr>"

definition report_pdf :: file_obj where
  "report_pdf = \<lparr>f_name = ''Report.PDF'', f_size = 2048\<rparr>"

definition notes_docx :: file_obj where
  "notes_docx = \<lparr>f_name = ''notes.docx'', f_size = 512\<rparr>"

text \<open>A state with project Alpha selected, its document and its two messages loaded.\<close>

definition alpha_open :: state where
  "alpha_open = \<lparr>projects = [alpha, beta], selectedProject = Some alpha,
                  documents = [alpha_doc], messages = [alpha_question, alpha_answer],
                  currentSources = [], isSourcePanelOpen = False, isLoading = False,
                  darkMode = True, inputMessage = [], inflight = [], timers = [],
                  console = [], uncaught = []\<rparr>"

definition network_down :: "request \<Rightarrow> error + string js" where
  "network_down rq = Inl (RequestFailed ''Network Error'')"



text \<open>From the first render: the projects arrive, Alpha is selected, a question is sent.\<close>

definition asking_trace :: "event list" where
  "asking_trace = [Settled 0 (Inr (ProjectsData (Obj [alpha, beta]))), ProjectSelect alpha,
                   InputChange ''What now?'', Send demo_clock]"

text \<open>
  From the first render: the projects arrive, Alpha is selected and then Beta, before any
  fetch for Alpha has settled. Then the two fetches for Beta settle, and after them the
  two for Alpha.
\<close>

definition switching_trace :: "event list" where
  "switching_trace = [Settled 0 (Inr (ProjectsData (Obj [alpha, beta]))), ProjectSelect alpha,
                      ProjectSelect beta]"

definition stale_trace :: "event list" where
  "stale_trace = switching_trace @
     [Settled 2 (Inr (DocumentsData (Obj []))),
      Settled 2 (Inr (HistoryData (Obj [\<lparr>c_messages = [beta_question]\<rparr>]))),
      Settled 0 (Inr (DocumentsData (Obj [alpha_doc]))),
      Settled 0 (Inr (HistoryData (Obj [\<lparr>c_messages = [alpha_question, alpha_answer]\<rparr>])))]"

section \<open>Properties of the access functions\<close>

text \<open>
  C8. Each of the eight access functions, when the request it sends fails with \<open>e\<close>,
  writes \<open>e\<close> to the console once, under its own message, and throws \<open>e\<close> to its caller:
  the result is never a value put in place of the failure.
\<close>

theorem access_functions_rethrow:
  "(axios \<lparr>rq_verb = GET, rq_url = api @ ''/api/projects'', rq_body = NoBody\<rparr> = Inl e
      \<longrightarrow> rethrown ''Error posting chat query:'' e (getProjectsQuery api axios)) \<and>
   (axios \<lparr>rq_verb = POST, rq_url = api @ ''/api/projects'',
           rq_body = ProjectBody (fst newProject) (snd newProject)\<rparr> = Inl e
      \<longrightarrow> rethrown ''Error posting chat query:'' e (AddProjects api newProject axios)) \<and>
   (axios \<lparr>rq_verb = DELETE, rq_url = api @ ''/api/projects/'' @ project_id,
           rq_body = NoBody\<rparr> = Inl e
      \<longrightarrow> rethrown ''Error posting chat query:'' e (DeleteProjects api project_id axios)) \<and>
   (axios \<lparr>rq_verb = GET, rq_url = api @ ''/api/documents/project/'' @ project_id,
           rq_body = NoBody\<rparr> = Inl e
      \<longrightarrow> rethrown ''Error posting chat query:'' e
            (getProjectDocumentsQuery api project_id axios)) \<and>
   (axios \<lparr>rq_verb = POST, rq_url = api @ ''/api/documents/upload?project_id='' @ project_id,
           rq_body = FormBody formData\<rparr> = Inl e
      \<longrightarrow> rethrown ''Error uploading document:'' e
            (uploadDocumentQuery api project_id formData axios)) \<and>
   (axios \<lparr>rq_verb = DELETE, rq_url = api @ ''/api/documents/'' @ documentId,
           rq_body = NoBody\<rparr> = Inl e
      \<longrightarrow> rethrown ''Error deleting document:'' e (deleteDocument api documentId axios)) \<and>
   (axios \<lparr>rq_verb = POST, rq_url = api @ ''/api/chat/query'', rq_body = QueryBody query\<rparr> = Inl e
      \<longrightarrow> rethrown ''Error posting chat query:'' e (postChatQuery api query axios)) \<and>
   (axios \<lparr>rq_verb = GET, rq_url = api @ ''/api/chat/history/'' @ project_id,
           rq_body = NoBody\<rparr> = Inl e
      \<longrightarrow> rethrown ''Error posting chat feedback:'' e (getChatHistory api project_id axios))"
  by (simp add: rethrown_def getProjectsQuery_def AddProjects_def DeleteProjects_def
      getProjectDocumentsQuery_def uploadDocumentQuery_def deleteDocument_def postChatQuery_def
      getChatHistory_def)

theorem access_functions_rethrow_witness:
  "network_down \<lparr>rq_verb = GET, rq_url = ''http://localhost:8000/api/projects'',
                 rq_body = NoBody\<rparr> = Inl (RequestFailed ''Network Error'') \<and>
   getProjectsQuery ''http://localhost:8000'' network_down =
     ([ConsoleError ''Error posting chat query:'' (Some (RequestFailed ''Network Error''))],
      Inl (RequestFailed ''Network Error'')) \<and>
   getChatHistory ''http://localhost:8000'' ''p1'' network_down =
     ([ConsoleError ''Error posting chat feedback:'' (Some (RequestFailed ''Network Error''))],
      Inl (RequestFailed ''Network Error'')) \<and>
   deleteDocument ''http://localhost:8000'' ''d1'' network_down =
     ([ConsoleError ''Error deleting document:'' (Some (RequestFailed ''Network Error''))],
      Inl (RequestFailed ''Network Error''))"
  using access_functions_rethrow [of network_down "''http://localhost:8000''"
      "RequestFailed ''Network Error''" _ "''p1''" _ "''d1''"]
  by (simp add: rethrown_def network_down_def prod_eq_iff)

section \<open>Chat history\<close>

lemma flatMap_append: "flatMap f (xs @ ys) = flatMap f xs @ flatMap f ys"
  by (induction xs) simp_all

lemma length_flatMap: "length (flatMap f xs) = sum_list (map (\<lambda>x. length (f x)) xs)"
  by (induction xs) simp_all

lemma fetchChatHistory_resume_Obj:
  "fetchChatHistory_resume cfg projectId (Inr (Obj response)) s =
     (None, s\<lparr>messages := flatMap c_messages response\<rparr>)"
  by (simp add: fetchChatHistory_resume_def getChatHistory_def)

text \<open>
  C6. When the history call answers with a list of conversations, \<open>fetchChatHistory\<close>
  sets the messages to one sequence in which the messages of every conversation of the
  answer stand as one block, in their own order, the blocks in the order of the
  conversations; the sequence has no other element (its length is the sum of the lengths).
\<close>

theorem history_flattened:
  "fetchChatHistory_resume cfg projectId (Inr (Obj (earlier @ conversation # later))) s =
     (None, s\<lparr>messages := flatMap c_messages earlier @ c_messages conversation @
                            flatMap c_messages later\<rparr>) \<and>
   length (flatMap c_messages (earlier @ conversation # later)) =
     sum_list (map (\<lambda>c. length (c_messages c)) (earlier @ conversation # later))"
  by (simp add: fetchChatHistory_resume_Obj flatMap_append length_flatMap)

theorem history_flattened_witness:
  "messages (snd (fetchChatHistory_resume demo_cfg ''p1''
      (Inr (Obj [\<lparr>c_messages = [alpha_question, alpha_answer]\<rparr>, \<lparr>c_messages = []\<rparr>,
                 \<lparr>c_messages = [beta_question]\<rparr>])) initial)) =
     [alpha_question, alpha_answer, beta_question]"
  using history_flattened [of demo_cfg "''p1''" "[\<lparr>c_messages = [alpha_question, alpha_answer]\<rparr>]"
      "\<lparr>c_messages = []\<rparr>" "[\<lparr>c_messages = [beta_question]\<rparr>]" initial]
  by simp

section \<open>Deleting a project\<close>

lemma handleProjectDelete_fields:
  "projects (handleProjectDelete projectId s) = filter (\<lambda>p. p_id p \<noteq> projectId) (projects s)"
  "documents (handleProjectDelete projectId s) =
     filter (\<lambda>d. d_projectId d \<noteq> projectId) (documents s)"
  "messages (handleProjectDelete projectId s) =
     filter (\<lambda>m. m_projectId m \<noteq> projectId) (messages s)"
  "inflight (handleProjectDelete projectId s) = inflight s @ [Unawaited_DeleteProjects projectId]"
  "isLoading (handleProjectDelete projectId s) = isLoading s"
  by (simp_all add: handleProjectDelete_def)

lemma rendered_fields:
  "projects (rendered s s1) = projects s1"
  "documents (rendered s s1) = documents s1"
  "messages (rendered s s1) = messages s1"
  "isLoading (rendered s s1) = isLoading s1"
  "selectedProject (rendered s s1) = selectedProject s1"
  by (simp_all add: rendered_def selectedProject_effect_def split: option.splits)

lemma set_inflight_rendered: "set (inflight s1) \<subseteq> set (inflight (rendered s s1))"
  by (auto simp add: rendered_def selectedProject_effect_def split: option.splits)

lemma DeleteProjects_settled_fields:
  "projects (snd (DeleteProjects_settled cfg projectId outcome s)) = projects s"
  "documents (snd (DeleteProjects_settled cfg projectId outcome s)) = documents s"
  "messages (snd (DeleteProjects_settled cfg projectId outcome s)) = messages s"
  by (simp_all add: DeleteProjects_settled_def DeleteProjects_def split: sum.splits)

text \<open>
  C1. After any sequence of events \<open>ops\<close> (creations and deletions of projects among
  them) from any state, the state right after \<open>handleProjectDelete projectId\<close> holds no
  project with that id and no document or message of that project. At that moment the
  backend call is still in flight; whatever its outcome, its settling changes none of the
  three lists.
\<close>

theorem delete_removes_project:
  "projectId \<notin> p_id ` set (projects (step cfg (ProjectDelete projectId) (run cfg ops s0))) \<and>
   projectId \<notin>
     d_projectId ` set (documents (step cfg (ProjectDelete projectId) (run cfg ops s0))) \<and>
   projectId \<notin>
     m_projectId ` set (messages (step cfg (ProjectDelete projectId) (run cfg ops s0))) \<and>
   Unawaited_DeleteProjects projectId
     \<in> set (inflight (step cfg (ProjectDelete projectId) (run cfg ops s0))) \<and>
   projects (snd (DeleteProjects_settled cfg projectId outcome s)) = projects s \<and>
   documents (snd (DeleteProjects_settled cfg projectId outcome s)) = documents s \<and>
   messages (snd (DeleteProjects_settled cfg projectId outcome s)) = messages s"
proof -
  have "Unawaited_DeleteProjects projectId
          \<in> set (inflight (handleProjectDelete projectId (run cfg ops s0)))"
    by (simp add: handleProjectDelete_fields)
  then have "Unawaited_DeleteProjects projectId
          \<in> set (inflight (step cfg (ProjectDelete projectId) (run cfg ops s0)))"
    using set_inflight_rendered by (auto simp del: set_append)
  then show ?thesis
    by (auto simp add: rendered_fields handleProjectDelete_fields DeleteProjects_settled_fields)
qed

theorem delete_removes_project_witness:
  "''p1'' \<in> p_id ` set (projects alpha_open) \<and>
   map p_id (projects (step demo_cfg (ProjectDelete ''p1'')
      (run demo_cfg [ProjectCreate demo_clock ''Gamma'' None] alpha_open))) =
     [''p2'', ''project-1700000000000''] \<and>
   ''p1'' \<notin> p_id ` set (projects (step demo_cfg (ProjectDelete ''p1'')
      (run demo_cfg [ProjectCreate demo_clock ''Gamma'' None] alpha_open)))"
  using delete_removes_project [of "''p1''" demo_cfg
      "[ProjectCreate demo_clock ''Gamma'' None]" alpha_open]
  by (simp add: alpha_open_def alpha_def beta_def demo_clock_def handleProjectCreate_def
      rendered_fields handleProjectDelete_fields)

section \<open>Uploading files\<close>

lemma handleFileUpload_Nil:
  "handleFileUpload orc [] projectId s = (Some (TypeError ''files[0] is undefined''), s)"
  by (simp add: handleFileUpload_def)

lemma handleFileUpload_Cons:
  "handleFileUpload orc (file0 # rest) projectId s =
     (None, s\<lparr>inflight := inflight s @
                  [Unawaited_uploadDocumentQuery projectId
                     (firstFileForm orc projectId (Suc (length rest)) file0)],
              documents := documents s @
                  map (newDocument orc projectId) (enumerate 0 (file0 # rest)),
              projects := map (bumpFileCount orc projectId (Suc (length rest))) (projects s),
              timers := timers s @
                  [map (newDocument orc projectId) (enumerate 0 (file0 # rest))]\<rparr>)"
  by (simp add: handleFileUpload_def Let_def)

lemma truthy_find_js: "truthy (find_js P xs) \<longleftrightarrow> (\<exists>x \<in> set xs. P x)"
  by (induction xs) simp_all

lemma markReady_eq:
  "markReady new doc = (if d_id doc \<in> d_id ` set new then doc\<lparr>d_status := Ready\<rparr> else doc)"
proof -
  have "(\<exists>x \<in> set new. d_id x = d_id doc) \<longleftrightarrow> d_id doc \<in> d_id ` set new"
    unfolding image_iff by (blast intro: sym)
  then show ?thesis by (simp add: markReady_def truthy_find_js)
qed

lemma newDocument_fields:
  "d_status (newDocument orc projectId x) = Processing"
  "d_projectId (newDocument orc projectId x) = projectId"
  "d_filename (newDocument orc projectId x) = f_name (snd x)"
  "d_size (newDocument orc projectId x) = f_size (snd x)"
  by (simp_all add: newDocument_def split: prod.splits)

lemma map_enumerate_snd: "map (\<lambda>x. f (snd x)) (enumerate n xs) = map f xs"
  by (induction xs arbitrary: n) simp_all

lemma documents_after_upload:
  "documents (snd (handleFileUpload orc files projectId s)) =
     documents s @ map (newDocument orc projectId) (enumerate 0 files)"
  by (cases files) (simp_all add: handleFileUpload_Nil handleFileUpload_Cons)

lemma file_count_bump:
  "p_file_count (bumpFileCount orc projectId n p) =
     p_file_count p + (if p_id p = projectId then int n else 0)"
  "p_id (bumpFileCount orc projectId n p) = p_id p"
  by (simp_all add: bumpFileCount_def)

lemma file_counts_after_upload:
  "map p_file_count (projects (snd (handleFileUpload orc files projectId s))) =
     map (\<lambda>p. p_file_count p + (if p_id p = projectId then int (length files) else 0))
         (projects s)"
  by (cases files) (simp_all add: handleFileUpload_Nil handleFileUpload_Cons file_count_bump o_def)

lemma project_ids_after_upload:
  "map p_id (projects (snd (handleFileUpload orc files projectId s))) = map p_id (projects s)"
  by (cases files) (simp_all add: handleFileUpload_Nil handleFileUpload_Cons file_count_bump o_def)

lemma timers_after_upload:
  "files \<noteq> [] \<Longrightarrow> timers (snd (handleFileUpload orc files projectId s)) =
     timers s @ [map (newDocument orc projectId) (enumerate 0 files)]"
  by (cases files) (simp_all add: handleFileUpload_Cons)

lemma uploadTimeout_documents:
  "documents (uploadTimeout new s2) =
     map (\<lambda>d. if d_id d \<in> d_id ` set new then d\<lparr>d_status := Ready\<rparr> else d) (documents s2)"
  by (simp add: uploadTimeout_def markReady_eq)

lemma uploadTimeout_present:
  "d \<in> set new \<Longrightarrow> d \<in> set (documents s2) \<Longrightarrow>
     d\<lparr>d_status := Ready\<rparr> \<in> set (documents (uploadTimeout new s2))"
  by (force simp add: uploadTimeout_documents)

lemma files_in_transmission_after_upload:
  "files_in_transmission (snd (handleFileUpload orc (file0 # rest) projectId s)) =
     files_in_transmission s @ [file0]"
  by (simp add: handleFileUpload_Cons files_in_transmission_def map_filter_def firstFileForm_def)

lemma uploadDocumentQuery_settled_fields:
  "documents (snd (uploadDocumentQuery_settled cfg projectId formData outcome s)) = documents s"
  "projects (snd (uploadDocumentQuery_settled cfg projectId formData outcome s)) = projects s"
  by (simp_all add: uploadDocumentQuery_settled_def uploadDocumentQuery_def split: sum.splits)

text \<open>
  C7. A drop of files appends one new document per file, in the order of the files, each
  with the file's name, status \<open>Processing\<close> and the given project id; every project with
  that id has its file count raised by the number of files and no other count changes. A
  non-empty drop registers one timer holding the new records, and when that timer runs,
  in whatever state, every new record still in the list is there with status \<open>Ready\<close>;
  the timer does not look at the upload call.
\<close>

theorem upload_optimistic_records:
  "\<exists>newDocuments.
     documents (snd (handleFileUpload orc files projectId s)) = documents s @ newDocuments \<and>
     length newDocuments = length files \<and>
     map d_filename newDocuments = map f_name files \<and>
     (\<forall>d \<in> set newDocuments. d_status d = Processing \<and> d_projectId d = projectId) \<and>
     map p_id (projects (snd (handleFileUpload orc files projectId s))) = map p_id (projects s) \<and>
     map p_file_count (projects (snd (handleFileUpload orc files projectId s))) =
       map (\<lambda>p. p_file_count p + (if p_id p = projectId then int (length files) else 0))
           (projects s) \<and>
     (files \<noteq> [] \<longrightarrow>
        timers (snd (handleFileUpload orc files projectId s)) = timers s @ [newDocuments]) \<and>
     (\<forall>s2. \<forall>d \<in> set newDocuments. d \<in> set (documents s2) \<longrightarrow>
        d\<lparr>d_status := Ready\<rparr> \<in> set (documents (uploadTimeout newDocuments s2)))"
proof (intro exI conjI)
  let ?new = "map (newDocument orc projectId) (enumerate 0 files)"
  show "documents (snd (handleFileUpload orc files projectId s)) = documents s @ ?new"
    by (rule documents_after_upload)
  show "length ?new = length files" by simp
  show "map d_filename ?new = map f_name files"
    by (simp add: newDocument_fields o_def map_enumerate_snd)
  show "\<forall>d \<in> set ?new. d_status d = Processing \<and> d_projectId d = projectId"
    by (auto simp add: newDocument_fields)
  show "map p_id (projects (snd (handleFileUpload orc files projectId s))) = map p_id (projects s)"
    by (rule project_ids_after_upload)
  show "map p_file_count (projects (snd (handleFileUpload orc files projectId s))) =
       map (\<lambda>p. p_file_count p + (if p_id p = projectId then int (length files) else 0))
           (projects s)"
    by (rule file_counts_after_upload)
  show "files \<noteq> [] \<longrightarrow>
        timers (snd (handleFileUpload orc files projectId s)) = timers s @ [?new]"
    by (simp add: timers_after_upload)
  show "\<forall>s2. \<forall>d \<in> set ?new. d \<in> set (documents s2) \<longrightarrow>
        d\<lparr>d_status := Ready\<rparr> \<in> set (documents (uploadTimeout ?new s2))"
    using uploadTimeout_present by blast
qed

theorem upload_optimistic_records_witness:
  "[report_pdf, notes_docx] \<noteq> [] \<and>
   map d_status (documents (snd (handleFileUpload demo_clock [report_pdf, notes_docx] ''p1''
      alpha_open))) = [Ready, Processing, Processing] \<and>
   map p_file_count (projects (snd (handleFileUpload demo_clock [report_pdf, notes_docx] ''p1''
      alpha_open))) = [3, 0]"
proof -
  obtain new where
    docs: "documents (snd (handleFileUpload demo_clock [report_pdf, notes_docx] ''p1'' alpha_open))
            = documents alpha_open @ new"
    and len: "length new = length [report_pdf, notes_docx]"
    and processing: "\<forall>d \<in> set new. d_status d = Processing \<and> d_projectId d = ''p1''"
    and counts: "map p_file_count
        (projects (snd (handleFileUpload demo_clock [report_pdf, notes_docx] ''p1'' alpha_open))) =
      map (\<lambda>p. p_file_count p + (if p_id p = ''p1'' then int (length [report_pdf, notes_docx]) else 0))
        (projects alpha_open)"
    using upload_optimistic_records [of demo_clock "[report_pdf, notes_docx]" "''p1''" alpha_open]
    by blast
  from len obtain a b where "new = [a, b]"
    by (auto simp add: length_Suc_conv)
  with processing have "map d_status new = [Processing, Processing]"
    by simp
  with docs counts show ?thesis
    by (simp add: alpha_open_def alpha_doc_def alpha_def beta_def)
qed

text \<open>
  C3. A drop of two files, \<open>Report.PDF\<close> and \<open>notes.docx\<close>, into project Alpha: one
  upload call is put in flight and it carries \<open>Report.PDF\<close>; no call carries
  \<open>notes.docx\<close>, while two documents are added to the local list.
\<close>

theorem two_files_one_upload_request:
  "files_in_transmission alpha_open = [] \<and>
   files_in_transmission (snd (handleFileUpload demo_clock [report_pdf, notes_docx] ''p1''
      alpha_open)) = [report_pdf] \<and>
   length (documents (snd (handleFileUpload demo_clock [report_pdf, notes_docx] ''p1''
      alpha_open))) = length (documents alpha_open) + 2"
  by (simp add: files_in_transmission_after_upload documents_after_upload)
     (simp add: files_in_transmission_def alpha_open_def map_filter_def)

lemma console_after_upload:
  "console (snd (handleFileUpload orc files projectId s)) = console s"
  by (cases files) (simp_all add: handleFileUpload_Nil handleFileUpload_Cons)

lemma upload_call_after_upload:
  "files \<noteq> [] \<Longrightarrow>
     fst (handleFileUpload orc files projectId s) = None \<and>
     (\<exists>formData. inflight (snd (handleFileUpload orc files projectId s)) =
        inflight s @ [Unawaited_uploadDocumentQuery projectId formData])"
  by (cases files) (simp_all add: handleFileUpload_Cons)

text \<open>
  C9, as the code behaves. For every drop, \<open>handleFileUpload\<close> never takes the branch under
  \<open>if (!response)\<close>: it writes nothing to the console. For every drop of at least one file
  it returns with the upload call in flight (the Promise bound to \<open>response\<close>), one new
  document per file appended in the order of the files, each \<open>Processing\<close> and of the given
  project, and the file count of every project with that id raised by the number of files,
  the other counts unchanged. When the upload call settles later, with success or with
  failure, the documents and the projects stay as they are.
\<close>

theorem nonempty_upload_inserts_whatever_the_outcome:
  "console (snd (handleFileUpload orc files projectId s)) = console s \<and>
   (files \<noteq> [] \<longrightarrow>
      fst (handleFileUpload orc files projectId s) = None \<and>
      (\<exists>formData. inflight (snd (handleFileUpload orc files projectId s)) =
         inflight s @ [Unawaited_uploadDocumentQuery projectId formData]) \<and>
      (\<exists>newDocuments.
         documents (snd (handleFileUpload orc files projectId s)) = documents s @ newDocuments \<and>
         length newDocuments = length files \<and>
         map d_filename newDocuments = map f_name files \<and>
         (\<forall>d \<in> set newDocuments. d_status d = Processing \<and> d_projectId d = projectId)) \<and>
      map p_id (projects (snd (handleFileUpload orc files projectId s))) =
        map p_id (projects s) \<and>
      map p_file_count (projects (snd (handleFileUpload orc files projectId s))) =
        map (\<lambda>p. p_file_count p + (if p_id p = projectId then int (length files) else 0))
            (projects s)) \<and>
   documents (snd (uploadDocumentQuery_settled cfg projectId formData' outcome s2)) =
     documents s2 \<and>
   projects (snd (uploadDocumentQuery_settled cfg projectId formData' outcome s2)) = projects s2"
proof (intro conjI impI)
  show "console (snd (handleFileUpload orc files projectId s)) = console s"
    by (rule console_after_upload)
next
  assume "files \<noteq> []"
  then show "fst (handleFileUpload orc files projectId s) = None"
    and "\<exists>formData. inflight (snd (handleFileUpload orc files projectId s)) =
           inflight s @ [Unawaited_uploadDocumentQuery projectId formData]"
    using upload_call_after_upload [of files orc projectId s] by simp_all
next
  let ?new = "map (newDocument orc projectId) (enumerate 0 files)"
  have "documents (snd (handleFileUpload orc files projectId s)) = documents s @ ?new"
    by (rule documents_after_upload)
  moreover have "length ?new = length files" by simp
  moreover have "map d_filename ?new = map f_name files"
    by (simp add: newDocument_fields o_def map_enumerate_snd)
  moreover have "\<forall>d \<in> set ?new. d_status d = Processing \<and> d_projectId d = projectId"
    by (auto simp add: newDocument_fields)
  ultimately show "\<exists>newDocuments.
      documents (snd (handleFileUpload orc files projectId s)) = documents s @ newDocuments \<and>
      length newDocuments = length files \<and>
      map d_filename newDocuments = map f_name files \<and>
      (\<forall>d \<in> set newDocuments. d_status d = Processing \<and> d_projectId d = projectId)"
    by blast
next
  show "map p_id (projects (snd (handleFileUpload orc files projectId s))) =
          map p_id (projects s)"
    by (rule project_ids_after_upload)
next
  show "map p_file_count (projects (snd (handleFileUpload orc files projectId s))) =
          map (\<lambda>p. p_file_count p + (if p_id p = projectId then int (length files) else 0))
              (projects s)"
    by (rule file_counts_after_upload)
next
  show "documents (snd (uploadDocumentQuery_settled cfg projectId formData' outcome s2)) =
          documents s2"
    and "projects (snd (uploadDocumentQuery_settled cfg projectId formData' outcome s2)) =
          projects s2"
    by (simp_all add: uploadDocumentQuery_settled_fields)
qed

theorem nonempty_upload_inserts_whatever_the_outcome_witness:
  "[report_pdf, notes_docx] \<noteq> [] \<and>
   fst (handleFileUpload demo_clock [report_pdf, notes_docx] ''p1'' alpha_open) = None \<and>
   console (snd (handleFileUpload demo_clock [report_pdf, notes_docx] ''p1'' alpha_open)) = [] \<and>
   map d_filename (documents (snd (handleFileUpload demo_clock [report_pdf, notes_docx] ''p1''
      alpha_open))) = [''plan.pdf'', ''Report.PDF'', ''notes.docx''] \<and>
   map p_file_count (projects alpha_open) = [1, 0] \<and>
   map p_file_count (projects (snd (handleFileUpload demo_clock [report_pdf, notes_docx] ''p1''
      alpha_open))) = [3, 0] \<and>
   map p_file_count (projects (snd (uploadDocumentQuery_settled demo_cfg ''p1''
      (firstFileForm demo_clock ''p1'' 2 report_pdf) (Inl (RequestFailed ''Network Error''))
      (snd (handleFileUpload demo_clock [report_pdf, notes_docx] ''p1'' alpha_open))))) = [3, 0] \<and>
   length (documents (snd (uploadDocumentQuery_settled demo_cfg ''p1''
      (firstFileForm demo_clock ''p1'' 2 report_pdf) (Inl (RequestFailed ''Network Error''))
      (snd (handleFileUpload demo_clock [report_pdf, notes_docx] ''p1'' alpha_open))))) = 3"
proof -
  note fact = nonempty_upload_inserts_whatever_the_outcome [where orc = demo_clock
      and files = "[report_pdf, notes_docx]" and projectId = "''p1''" and s = alpha_open
      and cfg = demo_cfg and formData' = "firstFileForm demo_clock ''p1'' 2 report_pdf"
      and outcome = "Inl (RequestFailed ''Network Error'')"
      and ?s2.0 = "snd (handleFileUpload demo_clock [report_pdf, notes_docx] ''p1'' alpha_open)"]
  from fact obtain new where
    docs: "documents (snd (handleFileUpload demo_clock [report_pdf, notes_docx] ''p1'' alpha_open))
             = documents alpha_open @ new"
    and names: "map d_filename new = map f_name [report_pdf, notes_docx]"
    by auto
  from fact docs names show ?thesis
    by (simp add: alpha_open_def alpha_doc_def alpha_def beta_def report_pdf_def notes_docx_def)
qed

text \<open>
  C9, as the claim states it, fails at the empty drop, which the drop zone delivers when
  every dropped file is refused: reading \<open>files[0].name\<close> throws before
  \<open>uploadDocumentQuery\<close> is called, and the updater of the projects, which would have
  stamped project Alpha, does not run; no call is in flight and no timer is registered.
\<close>

theorem empty_drop_counterexample:
  "fst (handleFileUpload demo_clock [] ''p1'' alpha_open) =
     Some (TypeError ''files[0] is undefined'') \<and>
   snd (handleFileUpload demo_clock [] ''p1'' alpha_open) = alpha_open \<and>
   inflight (snd (handleFileUpload demo_clock [] ''p1'' alpha_open)) = [] \<and>
   timers (snd (handleFileUpload demo_clock [] ''p1'' alpha_open)) = [] \<and>
   projects (snd (handleFileUpload demo_clock [] ''p1'' alpha_open)) \<noteq>
     map (bumpFileCount demo_clock ''p1'' 0) (projects alpha_open)"
  by (simp add: handleFileUpload_Nil)
     (simp add: alpha_open_def alpha_def bumpFileCount_def demo_clock_def)

section \<open>Sending a chat query\<close>

lemma handleSend_sent:
  assumes "trim (inputMessage s) \<noteq> []" and "\<not> isLoading s" and "selectedProject s = Some p"
  shows "handleSend cfg orc s =
     s\<lparr>isLoading := True,
       messages := messages s @
         [\<lparr>m_id = ''msg-'' @ date_now orc 0, m_projectId = p_id p,
           m_content = inputMessage s, m_role = User, m_timestamp = iso_now orc 0,
           m_sources = None\<rparr>],
       inputMessage := [],
       inflight := inflight s @ [Await_handleSend (chatPayload cfg s)]\<rparr>"
  using assms by (simp add: handleSend_def handleSendMessage_def Let_def)

lemma handleSend_resume_failure:
  "handleSend_resume cfg query (Inl e) s =
     (Some e, s\<lparr>console := console s @ [ConsoleError ''Error posting chat query:'' (Some e)]\<rparr>)"
  by (simp add: handleSend_resume_def postChatQuery_def)




section \<open>The event loop: what each event can change\<close>

lemma escaped_fields:
  "isLoading (escaped r) = isLoading (snd r)"
  "inflight (escaped r) = inflight (snd r)"
  "messages (escaped r) = messages (snd r)"
  "documents (escaped r) = documents (snd r)"
  "projects (escaped r) = projects (snd r)"
  "selectedProject (escaped r) = selectedProject (snd r)"
  "console (escaped r) = console (snd r)"
  "uncaught (escaped r) = uncaught (snd r) @ (case fst r of None \<Rightarrow> [] | Some e \<Rightarrow> [e])"
  by (simp_all add: escaped_def split: option.splits)

lemma dropped_fields:
  "isLoading (dropped r) = isLoading (snd r)"
  "inflight (dropped r) = inflight (snd r)"
  by (simp_all add: dropped_def split: option.splits)

lemma remove_nth_split:
  "i < length xs \<Longrightarrow> xs = take i xs @ xs ! i # drop (Suc i) xs"
  by (simp add: id_take_nth_drop)

lemma filter_remove_nth_other:
  assumes "i < length xs" and "\<not> P (xs ! i)"
  shows "filter P (remove_nth i xs) = filter P xs"
proof -
  have "filter P xs = filter P (take i xs @ xs ! i # drop (Suc i) xs)"
    using remove_nth_split [OF assms(1)] by simp
  with assms(2) show ?thesis by (simp add: remove_nth_def)
qed

lemma filter_remove_nth_hit:
  assumes "i < length xs" and "P (xs ! i)"
  shows "Suc (length (filter P (remove_nth i xs))) = length (filter P xs)"
proof -
  have "filter P xs = filter P (take i xs @ xs ! i # drop (Suc i) xs)"
    using remove_nth_split [OF assms(1)] by simp
  with assms(2) show ?thesis by (simp add: remove_nth_def)
qed

lemma settle_chat_query:
  "settle cfg (Await_handleSend query) outcome s = Some r \<Longrightarrow> inflight (snd r) = inflight s"
  by (auto simp add: settle_def handleSend_resume_def postChatQuery_def
      split: sum.splits response.splits js.splits if_splits)

lemma settle_other:
  assumes "\<not> is_chat_query call" and "settle cfg call outcome s = Some r"
  shows "isLoading (snd r) = isLoading s \<and> chat_queries (snd r) = chat_queries s"
proof (cases call)
  case Await_fetchProjects
  with assms(2) show ?thesis
    by (auto simp add: settle_def fetchProjects_resume_def getProjectsQuery_def chat_queries_def
        split: sum.splits response.splits js.splits)
next
  case (Await_fetchProjectDocuments projectId)
  with assms(2) show ?thesis
    by (auto simp add: settle_def fetchProjectDocuments_resume_def getProjectDocumentsQuery_def
        chat_queries_def split: sum.splits response.splits js.splits)
next
  case (Await_fetchChatHistory projectId)
  with assms(2) show ?thesis
    by (auto simp add: settle_def fetchChatHistory_resume_def getChatHistory_def
        chat_queries_def split: sum.splits response.splits js.splits)
next
  case (Await_handleSend query)
  with assms(1) show ?thesis by simp
next
  case (Await_handleCreateProject newProject)
  with assms(2) show ?thesis
    by (auto simp add: settle_def handleCreateProject_resume_def AddProjects_def
        chat_queries_def split: sum.splits response.splits js.splits if_splits)
next
  case (Unawaited_DeleteProjects projectId)
  with assms(2) show ?thesis
    by (auto simp add: settle_def DeleteProjects_settled_def DeleteProjects_def
        chat_queries_def split: sum.splits response.splits js.splits)
next
  case (Unawaited_uploadDocumentQuery projectId formData)
  with assms(2) show ?thesis
    by (auto simp add: settle_def uploadDocumentQuery_settled_def uploadDocumentQuery_def
        chat_queries_def split: sum.splits response.splits js.splits)
qed

lemma handleFileUpload_chat:
  "isLoading (snd (handleFileUpload orc files projectId s)) = isLoading s"
  "filter is_chat_query (inflight (snd (handleFileUpload orc files projectId s))) =
     filter is_chat_query (inflight s)"
  by (cases files; simp add: handleFileUpload_Nil handleFileUpload_Cons)+

lemma rendered_chat:
  "filter is_chat_query (inflight (rendered s s1)) = filter is_chat_query (inflight s1)"
  by (simp add: rendered_def selectedProject_effect_def split: option.splits)

lemma step_quiet:
  "(case ev of
      Send _ \<Rightarrow> True
    | Settled _ _ \<Rightarrow> True
    | _ \<Rightarrow> isLoading (step cfg ev s) = isLoading s \<and>
           chat_queries (step cfg ev s) = chat_queries s)"
  by (cases ev)
     (simp_all add: handleProjectCreate_def rendered_fields rendered_chat
      handleProjectSelect_def handleProjectDelete_def handleFileUpload_chat dropped_fields
      handleCreateProject_def handleSourceClick_def handleToggleDarkMode_def
      uploadTimeout_def chat_queries_def)

text \<open>The state in which the chat is stuck: loading, and no chat query left to end it.\<close>

lemma stuck_step:
  assumes "isLoading s" and "chat_queries s = []"
  shows "isLoading (step cfg ev s) \<and> chat_queries (step cfg ev s) = []"
proof (cases ev)
  case (Settled i outcome)
  show ?thesis
  proof (cases "i < length (inflight s)")
    case False
    with Settled assms show ?thesis by simp
  next
    case True
    then have "inflight s ! i \<in> set (inflight s)" by simp
    with assms(2) have other: "\<not> is_chat_query (inflight s ! i)"
      by (auto simp add: chat_queries_def filter_empty_conv)
    show ?thesis
    proof (cases "settle cfg (inflight s ! i) outcome (s\<lparr>inflight := remove_nth i (inflight s)\<rparr>)")
      case None
      with Settled True assms show ?thesis by simp
    next
      case (Some r)
      from settle_other [OF other Some]
      have "isLoading (snd r) = isLoading s"
        and "chat_queries (snd r) = filter is_chat_query (remove_nth i (inflight s))"
        by (simp_all add: chat_queries_def)
      moreover have "filter is_chat_query (remove_nth i (inflight s)) = chat_queries s"
        unfolding chat_queries_def
        using True other by (rule filter_remove_nth_other [of i "inflight s" is_chat_query])
      ultimately show ?thesis
        using Settled True Some assms by (simp add: escaped_fields chat_queries_def)
    qed
  qed
next
  case (Send orc)
  with assms show ?thesis by (simp add: handleSend_def)
qed (use step_quiet [where ev = ev and cfg = cfg and s = s] assms in simp_all)

lemma stuck_run:
  "isLoading s \<Longrightarrow> chat_queries s = [] \<Longrightarrow>
     isLoading (run cfg evs s) \<and> chat_queries (run cfg evs s) = []"
proof (induction evs arbitrary: s)
  case Nil
  then show ?case by simp
next
  case (Cons ev evs)
  from stuck_step [OF Cons.prems] show ?case
    by (simp add: Cons.IH)
qed

lemma run_append: "run cfg (xs @ ys) s = run cfg ys (run cfg xs s)"
  by (induction xs arbitrary: s) simp_all

text \<open>
  While the page offers the events, at most one chat query is in flight, and none unless
  the loading flag is set.
\<close>

lemma one_query_step:
  assumes inv: "length (chat_queries s) \<le> 1 \<and> (isLoading s \<or> chat_queries s = [])"
    and off: "offered cfg ev s"
  shows "length (chat_queries (step cfg ev s)) \<le> 1 \<and>
         (isLoading (step cfg ev s) \<or> chat_queries (step cfg ev s) = [])"
proof (cases ev)
  case (Send orc)
  with off have idle: "\<not> isLoading s" and "selectedProject s \<noteq> None"
    by (auto simp add: chatDisabled_def split: option.splits)
  then obtain p where p: "selectedProject s = Some p" by auto
  from inv idle have none: "chat_queries s = []" by simp
  show ?thesis
  proof (cases "trim (inputMessage s) = []")
    case True
    with Send inv show ?thesis by (simp add: handleSend_def)
  next
    case False
    from handleSend_sent [OF False idle p, of cfg orc] none Send show ?thesis
      by (simp add: chat_queries_def)
  qed
next
  case (Settled i outcome)
  with off have i: "i < length (inflight s)" by simp
  from Settled off obtain r where
    r: "settle cfg (inflight s ! i) outcome (s\<lparr>inflight := remove_nth i (inflight s)\<rparr>) = Some r"
    by auto
  have after: "step cfg ev s = escaped r"
    using Settled i r by simp
  show ?thesis
  proof (cases "is_chat_query (inflight s ! i)")
    case True
    then obtain query where q: "inflight s ! i = Await_handleSend query"
      by (cases "inflight s ! i") simp_all
    from filter_remove_nth_hit [of i "inflight s" is_chat_query, OF i True] inv
    have "length (filter is_chat_query (remove_nth i (inflight s))) = 0"
      unfolding chat_queries_def by linarith
    then have "filter is_chat_query (remove_nth i (inflight s)) = []"
      by simp
    moreover from settle_chat_query r q have "inflight (snd r) = remove_nth i (inflight s)"
      by fastforce
    ultimately show ?thesis
      by (simp add: after escaped_fields chat_queries_def)
  next
    case False
    from settle_other [OF False r]
    have "isLoading (snd r) = isLoading s"
      and "chat_queries (snd r) = filter is_chat_query (remove_nth i (inflight s))"
      by (simp_all add: chat_queries_def)
    moreover have "filter is_chat_query (remove_nth i (inflight s)) = chat_queries s"
      unfolding chat_queries_def
      using i False by (rule filter_remove_nth_other [of i "inflight s" is_chat_query])
    ultimately show ?thesis
      using inv by (simp add: after escaped_fields chat_queries_def)
  qed
qed (use step_quiet [where ev = ev and cfg = cfg and s = s] inv in simp_all)

lemma one_query_run:
  "length (chat_queries s) \<le> 1 \<and> (isLoading s \<or> chat_queries s = []) \<Longrightarrow>
   offered_all cfg evs s \<Longrightarrow>
     length (chat_queries (run cfg evs s)) \<le> 1 \<and>
     (isLoading (run cfg evs s) \<or> chat_queries (run cfg evs s) = [])"
proof (induction evs arbitrary: s)
  case Nil
  then show ?case by simp
next
  case (Cons ev evs)
  from Cons.prems have "offered cfg ev s" and rest: "offered_all cfg evs (step cfg ev s)"
    by simp_all
  from Cons.IH [OF one_query_step [OF Cons.prems(1) this(1)] rest] show ?case
    by simp
qed

lemma one_query_initial:
  "length (chat_queries initial) \<le> 1 \<and> (isLoading initial \<or> chat_queries initial = [])"
  by (simp add: initial_def chat_queries_def)

lemma failed_query_step:
  assumes "i < length (inflight s)" and "inflight s ! i = Await_handleSend query"
  shows "step cfg (Settled i (Inl e)) s =
     s\<lparr>inflight := remove_nth i (inflight s),
       console := console s @ [ConsoleError ''Error posting chat query:'' (Some e)],
       uncaught := uncaught s @ [e]\<rparr>"
  using assms by (simp add: settle_def handleSend_resume_failure escaped_def)

text \<open>
  C5. When the call of a chat query in flight fails, the message list stays exactly as it
  was (the user message is still there, and neither an assistant message nor an error
  message is added); the failed call leaves the calls in flight and no call is added (no
  retry); the error goes to the console and leaves \<open>handleSend\<close> uncaught.
\<close>

theorem failed_query_leaves_thread:
  assumes "i < length (inflight s)" and "inflight s ! i = Await_handleSend query"
  shows "messages (step cfg (Settled i (Inl e)) s) = messages s \<and>
         inflight (step cfg (Settled i (Inl e)) s) = remove_nth i (inflight s) \<and>
         console (step cfg (Settled i (Inl e)) s) =
           console s @ [ConsoleError ''Error posting chat query:'' (Some e)] \<and>
         uncaught (step cfg (Settled i (Inl e)) s) = uncaught s @ [e]"
  by (simp add: failed_query_step [OF assms] del: step.simps)

lemma stuck_after_failure:
  assumes "isLoading s" and "length (chat_queries s) \<le> 1"
    and "i < length (inflight s)" and "inflight s ! i = Await_handleSend query"
  shows "isLoading (run cfg later (step cfg (Settled i (Inl e)) s)) \<and>
         chat_queries (run cfg later (step cfg (Settled i (Inl e)) s)) = []"
proof -
  have "is_chat_query (inflight s ! i)" using assms(4) by simp
  from filter_remove_nth_hit [of i "inflight s" is_chat_query, OF assms(3) this] assms(2)
  have "length (filter is_chat_query (remove_nth i (inflight s))) = 0"
    unfolding chat_queries_def by linarith
  then have "filter is_chat_query (remove_nth i (inflight s)) = []"
    by simp
  then have "isLoading (step cfg (Settled i (Inl e)) s) \<and>
             chat_queries (step cfg (Settled i (Inl e)) s) = []"
    using assms(1) by (simp add: failed_query_step [OF assms(3,4)] chat_queries_def del: step.simps)
  then show ?thesis
    using stuck_run by blast
qed

text \<open>
  C10. Take any history of events offered by the page, from the first render on, that
  leaves a chat query in flight, and let the call of that query fail with \<open>e\<close>. Then \<open>e\<close>
  leaves \<open>handleSend\<close> uncaught, and after the failure and after every further sequence of
  events, of any kind, the loading flag is still true and the chat input and the send
  button are disabled.
\<close>

theorem failed_query_stays_loading:
  assumes "offered_all cfg before initial"
    and "i < length (inflight (run cfg before initial))"
    and "inflight (run cfg before initial) ! i = Await_handleSend query"
  shows "uncaught (run cfg (before @ [Settled i (Inl e)]) initial) =
           uncaught (run cfg before initial) @ [e] \<and>
         isLoading (run cfg before initial) \<and>
         isLoading (run cfg (before @ Settled i (Inl e) # later) initial) \<and>
         chatDisabled (run cfg (before @ Settled i (Inl e) # later) initial)"
proof -
  let ?s = "run cfg before initial"
  from one_query_run [OF one_query_initial assms(1)]
  have inv: "length (chat_queries ?s) \<le> 1 \<and> (isLoading ?s \<or> chat_queries ?s = [])" .
  have "inflight ?s ! i \<in> set (inflight ?s)" using assms(2) by simp
  with assms(3) have "Await_handleSend query \<in> set (chat_queries ?s)"
    by (simp add: chat_queries_def)
  then have "chat_queries ?s \<noteq> []"
    by auto
  with inv have loading: "isLoading ?s" and one: "length (chat_queries ?s) \<le> 1"
    by simp_all
  from stuck_after_failure [OF loading one assms(2,3), of cfg later e]
  have "isLoading (run cfg (before @ Settled i (Inl e) # later) initial)"
    by (simp add: run_append)
  moreover have "uncaught (run cfg (before @ [Settled i (Inl e)]) initial) = uncaught ?s @ [e]"
    by (simp add: run_append failed_query_step [OF assms(2,3)] del: step.simps)
  ultimately show ?thesis
    using loading by (simp add: chatDisabled_def)
qed

section \<open>Switching the project while its fetches are in flight\<close>

lemma ProjectSelect_keeps_inflight:
  "\<exists>new. inflight (step cfg (ProjectSelect project) s) = inflight s @ new"
  by (simp add: rendered_def selectedProject_effect_def handleProjectSelect_def)

lemma documents_fetch_applied:
  assumes "i < length (inflight s)" and "inflight s ! i = Await_fetchProjectDocuments projectId"
  shows "step cfg (Settled i (Inr (DocumentsData (Obj docs)))) s =
           s\<lparr>inflight := remove_nth i (inflight s), documents := docs\<rparr>"
  using assms
  by (simp add: settle_def fetchProjectDocuments_resume_def getProjectDocumentsQuery_def
      escaped_def)

lemma history_fetch_applied:
  assumes "i < length (inflight s)" and "inflight s ! i = Await_fetchChatHistory projectId"
  shows "step cfg (Settled i (Inr (HistoryData (Obj convs)))) s =
           s\<lparr>inflight := remove_nth i (inflight s), messages := flatMap c_messages convs\<rparr>"
  using assms
  by (simp add: settle_def fetchChatHistory_resume_Obj escaped_def)

text \<open>
  C4, as the code behaves. Selecting a project keeps every call in flight in flight.
  When a documents fetch in flight settles with a list, that list becomes the local
  documents, and when a history fetch in flight settles with a list of conversations,
  their flattened messages become the local messages: in both cases whichever project
  is selected at that moment, and the selection stays as it is.
\<close>

theorem settled_fetch_is_applied:
  "(\<exists>new. inflight (step cfg (ProjectSelect project) s) = inflight s @ new) \<and>
   (i < length (inflight s) \<and> inflight s ! i = Await_fetchProjectDocuments projectId \<longrightarrow>
      documents (step cfg (Settled i (Inr (DocumentsData (Obj docs)))) s) = docs \<and>
      selectedProject (step cfg (Settled i (Inr (DocumentsData (Obj docs)))) s) =
        selectedProject s) \<and>
   (j < length (inflight s) \<and> inflight s ! j = Await_fetchChatHistory projectId \<longrightarrow>
      messages (step cfg (Settled j (Inr (HistoryData (Obj convs)))) s) =
        flatMap c_messages convs \<and>
      selectedProject (step cfg (Settled j (Inr (HistoryData (Obj convs)))) s) =
        selectedProject s)"
  using ProjectSelect_keeps_inflight [of cfg project s]
  by (simp add: documents_fetch_applied history_fetch_applied del: step.simps)

lemmas trace_defs = initial_def settle_def escaped_def remove_nth_def rendered_def
  selectedProject_effect_def handleProjectSelect_def fetchProjects_resume_def
  fetchProjectDocuments_resume_def fetchChatHistory_resume_def getProjectsQuery_def
  getProjectDocumentsQuery_def getChatHistory_def handleSend_def handleSendMessage_def
  chatPayload_def selectedProjectId_def trim_def is_space_def chatDisabled_def
  demo_cfg_def demo_clock_def alpha_def beta_def

lemma switching_trace_state:
  "inflight (run demo_cfg switching_trace initial) =
     [Await_fetchProjectDocuments ''p1'', Await_fetchChatHistory ''p1'',
      Await_fetchProjectDocuments ''p2'', Await_fetchChatHistory ''p2'']"
  "selectedProject (run demo_cfg switching_trace initial) = Some beta"
  by (simp_all add: switching_trace_def trace_defs)

theorem settled_fetch_is_applied_witness:
  "(0::nat) < length (inflight (run demo_cfg switching_trace initial)) \<and>
   inflight (run demo_cfg switching_trace initial) ! 0 = Await_fetchProjectDocuments ''p1'' \<and>
   (1::nat) < length (inflight (run demo_cfg switching_trace initial)) \<and>
   inflight (run demo_cfg switching_trace initial) ! 1 = Await_fetchChatHistory ''p1'' \<and>
   selectedProject (run demo_cfg switching_trace initial) = Some beta \<and>
   documents (step demo_cfg (Settled 0 (Inr (DocumentsData (Obj [alpha_doc]))))
                (run demo_cfg switching_trace initial)) = [alpha_doc] \<and>
   selectedProject (step demo_cfg (Settled 0 (Inr (DocumentsData (Obj [alpha_doc]))))
                (run demo_cfg switching_trace initial)) = Some beta \<and>
   messages (step demo_cfg
                (Settled 1 (Inr (HistoryData (Obj [\<lparr>c_messages = [alpha_question, alpha_answer]\<rparr>]))))
                (run demo_cfg switching_trace initial)) = [alpha_question, alpha_answer]"
  using settled_fetch_is_applied [where cfg = demo_cfg and s = "run demo_cfg switching_trace initial"
      and i = 0 and j = 1 and projectId = "''p1''" and docs = "[alpha_doc]"
      and convs = "[\<lparr>c_messages = [alpha_question, alpha_answer]\<rparr>]"]
  by (simp add: switching_trace_state del: step.simps)

text \<open>
  C4, as the claim states it, fails. Alpha is selected and then Beta while both fetches
  for Alpha are in flight; the fetches for Beta settle first; then the documents and the
  history of Alpha arrive and replace what is shown for Beta, the selected project.
\<close>

theorem stale_fetch_counterexample:
  "offered_all demo_cfg stale_trace initial \<and>
   inflight (run demo_cfg switching_trace initial) =
     [Await_fetchProjectDocuments ''p1'', Await_fetchChatHistory ''p1'',
      Await_fetchProjectDocuments ''p2'', Await_fetchChatHistory ''p2''] \<and>
   selectedProject (run demo_cfg switching_trace initial) = Some beta \<and>
   selectedProject (run demo_cfg stale_trace initial) = Some beta \<and>
   documents (run demo_cfg stale_trace initial) = [alpha_doc] \<and>
   messages (run demo_cfg stale_trace initial) = [alpha_question, alpha_answer] \<and>
   d_projectId alpha_doc \<noteq> p_id beta"
  by (simp add: stale_trace_def switching_trace_def trace_defs alpha_doc_def)

section \<open>The examples of the chat properties\<close>



lemma asking_trace_state:
  "offered_all demo_cfg asking_trace initial"
  "inflight (run demo_cfg asking_trace initial) =
     [Await_fetchProjectDocuments ''p1'', Await_fetchChatHistory ''p1'',
      Await_handleSend \<lparr>q_include_sources = True, q_max_chunks = 5, q_project_id = ''p1'',
                        q_query = ''What now?''\<rparr>]"
  "map m_content (messages (run demo_cfg asking_trace initial)) = [''What now?'']"
  "uncaught (run demo_cfg asking_trace initial) = []"
  by (simp_all add: asking_trace_def trace_defs)

theorem failed_query_leaves_thread_witness:
  "(2::nat) < length (inflight (run demo_cfg asking_trace initial)) \<and>
   inflight (run demo_cfg asking_trace initial) ! 2 =
     Await_handleSend \<lparr>q_include_sources = True, q_max_chunks = 5, q_project_id = ''p1'',
                       q_query = ''What now?''\<rparr> \<and>
   map m_content (messages (step demo_cfg (Settled 2 (Inl (RequestFailed ''Network Error'')))
      (run demo_cfg asking_trace initial))) = [''What now?''] \<and>
   inflight (step demo_cfg (Settled 2 (Inl (RequestFailed ''Network Error'')))
      (run demo_cfg asking_trace initial)) =
     [Await_fetchProjectDocuments ''p1'', Await_fetchChatHistory ''p1'']"
  using failed_query_leaves_thread [where cfg = demo_cfg and i = 2
      and s = "run demo_cfg asking_trace initial" and e = "RequestFailed ''Network Error''"
      and query = "\<lparr>q_include_sources = True, q_max_chunks = 5, q_project_id = ''p1'',
                     q_query = ''What now?''\<rparr>"]
  by (simp add: asking_trace_state remove_nth_def del: step.simps)

theorem failed_query_stays_loading_witness:
  "offered_all demo_cfg asking_trace initial \<and>
   (2::nat) < length (inflight (run demo_cfg asking_trace initial)) \<and>
   inflight (run demo_cfg asking_trace initial) ! 2 =
     Await_handleSend \<lparr>q_include_sources = True, q_max_chunks = 5, q_project_id = ''p1'',
                       q_query = ''What now?''\<rparr> \<and>
   uncaught (run demo_cfg (asking_trace @ [Settled 2 (Inl (RequestFailed ''Network Error''))])
      initial) = [RequestFailed ''Network Error''] \<and>
   isLoading (run demo_cfg (asking_trace @ Settled 2 (Inl (RequestFailed ''Network Error'')) #
      [InputChange ''again'', Send demo_clock]) initial) \<and>
   chatDisabled (run demo_cfg (asking_trace @ Settled 2 (Inl (RequestFailed ''Network Error'')) #
      [InputChange ''again'', Send demo_clock]) initial)"
  using failed_query_stays_loading [where cfg = demo_cfg and before = asking_trace and i = 2
      and e = "RequestFailed ''Network Error''"
      and later = "[InputChange ''again'', Send demo_clock]"
      and query = "\<lparr>q_include_sources = True, q_max_chunks = 5, q_project_id = ''p1'',
                     q_query = ''What now?''\<rparr>"]
  by (simp add: asking_trace_state del: step.simps run.simps)

end
